theory Spec2Isabelle
  imports Main
begin

section \<open>Exceptions, effects and collaborators\<close>

text \<open>
  The two modules \<^verbatim>\<open>api.py\<close> and \<^verbatim>\<open>sb_connect.py\<close> are straight-line Python whose
  behaviour is what they raise, what they return and which calls they make on their
  collaborators (the logger, \<^verbatim>\<open>requests.post\<close>, the Supabase storage client, the local
  file system, the background-task queue). Each function is modelled as a HOL function
  that returns its outcome (\<open>Inl\<close> a raised exception, \<open>Inr\<close> the returned value) paired
  with the chronological list of the effects it performed. The collaborators' answers
  are parameters of the model.

  An exception value carries its class and the text that \<^verbatim>\<open>str(e)\<close> gives. Only
  instances of \<^verbatim>\<open>Exception\<close> are modelled: that is what every \<^verbatim>\<open>except Exception\<close>
  clause of the source catches.

  String literals of the source that contain letters with diacritics are written
  without the diacritics (\<^verbatim>\<open>nao\<close> for the source's word), since HOL string literals
  are ASCII.
\<close>

datatype classe =
    ValueError
  | FileNotFoundError
  | HTTPException int string
  | OutraExcecao string

datatype exn = Exn (classe: classe) (texto: string)

datatype nivel = DEBUG | INFO | WARNING | ERROR

type_synonym bytes = "char list"

type_synonym payload = "(string \<times> string) list"

datatype evento =
    Log nivel string
  | Chamada_webhook string string string "string option"
  | Chamada_processar string string
  | Post string payload "(string \<times> string) list"
  | Mkdir_pai string
  | Abrir_escrita string
  | Escrever string bytes
  | Abrir_leitura string
  | Download string string
  | Upload string string bytes "(string \<times> string) list"
  | Get_public_url string string
  | Remove string "string list"

text \<open>Python truthiness of a value that is \<^verbatim>\<open>None\<close> or a \<^verbatim>\<open>str\<close>.\<close>

fun truthy :: "string option \<Rightarrow> bool" where
  "truthy None = False"
| "truthy (Some s) = (s \<noteq> [])"

text \<open>\<^verbatim>\<open>str(n)\<close> for an integer, as the f-strings of the source print it.\<close>

fun str_nat :: "nat \<Rightarrow> string" where
  "str_nat n =
     (if n < 10 then [char_of (48 + n)]
      else str_nat (n div 10) @ [char_of (48 + n mod 10)])"

declare str_nat.simps [simp del]

definition str_int :: "int \<Rightarrow> string" where
  "str_int i = (if i < 0 then CHR ''-'' # str_nat (nat (- i)) else str_nat (nat i))"

definition str_bool :: "bool \<Rightarrow> string" where
  "str_bool b = (if b then ''True'' else ''False'')"

section \<open>Storage gateway (\<^verbatim>\<open>sb_connect.py\<close>)\<close>

text \<open>
  \<^verbatim>\<open>s.split('/', 1)\<close>: at most one split, at the first separator. A string without the
  separator gives the one-element list \<open>[s]\<close>.
\<close>

definition split_1 :: "char \<Rightarrow> string \<Rightarrow> string list" where
  "split_1 sep s =
     (if sep \<in> set s
      then [takeWhile (\<lambda>c. c \<noteq> sep) s, tl (dropWhile (\<lambda>c. c \<noteq> sep) s)]
      else [s])"

text \<open>
  The three lines that open \<^verbatim>\<open>baixar_arquivo\<close>, \<^verbatim>\<open>enviar_arquivo\<close> and \<^verbatim>\<open>excluir_arquivo\<close>
  alike: \<^verbatim>\<open>partes = caminho_bucket.split('/', 1)\<close>, \<^verbatim>\<open>bucket = partes[0]\<close> and
  \<^verbatim>\<open>caminho_arquivo = partes[1] if len(partes) > 1 else ""\<close>.
\<close>

definition bucket_de :: "string \<Rightarrow> string" where
  "bucket_de caminho_bucket = (let partes = split_1 CHR ''/'' caminho_bucket in partes ! 0)"

definition caminho_arquivo_de :: "string \<Rightarrow> string" where
  "caminho_arquivo_de caminho_bucket =
     (let partes = split_1 CHR ''/'' caminho_bucket
      in if length partes > 1 then partes ! 1 else '''')"

text \<open>
  The storage client (\<^verbatim>\<open>client.storage.from_(bucket)\<close> followed by one operation) and
  the local file system, as the answers they give. The upload's answer is the text
  that the debug line prints for \<^verbatim>\<open>response.status_code\<close> (\<open>None\<close> when the response has
  no such attribute).
\<close>

record cliente =
  download :: "string \<Rightarrow> string \<Rightarrow> exn + bytes"
  upload :: "string \<Rightarrow> string \<Rightarrow> bytes \<Rightarrow> (string \<times> string) list \<Rightarrow> exn + string option"
  get_public_url :: "string \<Rightarrow> string \<Rightarrow> exn + string"
  remove :: "string \<Rightarrow> string list \<Rightarrow> exn + unit"

record sistema_arquivos =
  existe :: "string \<Rightarrow> bool"
  abrir_leitura :: "string \<Rightarrow> exn + bytes"
  mkdir_pai :: "string \<Rightarrow> exn + unit"
  abrir_escrita :: "string \<Rightarrow> exn + unit"
  escrever :: "string \<Rightarrow> bytes \<Rightarrow> exn + unit"

text \<open>
  The \<^verbatim>\<open>except Exception as e: logger.error(...); raise\<close> wrapper that closes each of the
  gateway's operations.
\<close>

definition registrar_e_relancar ::
  "(exn \<Rightarrow> string) \<Rightarrow> (exn + 'a) \<times> evento list \<Rightarrow> (exn + 'a) \<times> evento list" where
  "registrar_e_relancar msg r =
     (case fst r of
        Inl e \<Rightarrow> (Inl e, snd r @ [Log ERROR (msg e)])
      | Inr v \<Rightarrow> (Inr v, snd r))"

definition baixar_arquivo ::
  "cliente \<Rightarrow> sistema_arquivos \<Rightarrow> string \<Rightarrow> string \<Rightarrow> (exn + string) \<times> evento list" where
  "baixar_arquivo client fs caminho_bucket caminho_local =
     registrar_e_relancar
       (\<lambda>e. ''Erro ao baixar arquivo '' @ caminho_bucket @ '': '' @ texto e)
       (let bucket = bucket_de caminho_bucket;
            caminho_arquivo = caminho_arquivo_de caminho_bucket;
            ev0 = [Log INFO (''Baixando arquivo '' @ caminho_arquivo @ '' do bucket '' @ bucket),
                   Mkdir_pai caminho_local]
        in case mkdir_pai fs caminho_local of
             Inl e \<Rightarrow> (Inl e, ev0)
           | Inr _ \<Rightarrow>
               (let ev1 = ev0 @ [Download bucket caminho_arquivo]
                in case download client bucket caminho_arquivo of
                     Inl e \<Rightarrow> (Inl e, ev1)
                   | Inr response \<Rightarrow>
                       (let ev2 = ev1 @ [Abrir_escrita caminho_local]
                        in case abrir_escrita fs caminho_local of
                             Inl e \<Rightarrow> (Inl e, ev2)
                           | Inr _ \<Rightarrow>
                               (let ev3 = ev2 @ [Escrever caminho_local response]
                                in case escrever fs caminho_local response of
                                     Inl e \<Rightarrow> (Inl e, ev3)
                                   | Inr _ \<Rightarrow>
                                       (Inr caminho_local,
                                        ev3 @ [Log INFO (''Arquivo baixado com sucesso para ''
                                                          @ caminho_local)])))))"

definition opcoes_upload :: "(string \<times> string) list" where
  "opcoes_upload = [(''content-type'', ''application/octet-stream''), (''upsert'', ''true'')]"

definition enviar_arquivo ::
  "cliente \<Rightarrow> sistema_arquivos \<Rightarrow> string \<Rightarrow> string \<Rightarrow> (exn + string option) \<times> evento list" where
  "enviar_arquivo client fs caminho_local caminho_bucket =
     registrar_e_relancar
       (\<lambda>e. ''Erro ao enviar arquivo '' @ caminho_local @ '' para '' @ caminho_bucket
              @ '': '' @ texto e)
       (let bucket = bucket_de caminho_bucket;
            caminho_arquivo = caminho_arquivo_de caminho_bucket;
            ev0 = [Log INFO (''Enviando arquivo '' @ caminho_local @ '' para '' @ bucket
                             @ ''/'' @ caminho_arquivo)]
        in if \<not> existe fs caminho_local
           then (Inl (Exn FileNotFoundError (''Arquivo '' @ caminho_local @ '' nao encontrado'')),
                 ev0)
           else
             (let ev1 = ev0 @ [Abrir_leitura caminho_local]
              in case abrir_leitura fs caminho_local of
                   Inl e \<Rightarrow> (Inl e, ev1)
                 | Inr f \<Rightarrow>
                     (let ev2 = ev1 @
                            [Log DEBUG (''Iniciando a chamada client.storage.from_('' @ [CHR 0x27]
                               @ bucket @ [CHR 0x27] @ '').upload('' @ [CHR 0x27] @ caminho_arquivo
                               @ [CHR 0x27] @ '') com upsert=true (streaming)...''),
                             Upload bucket caminho_arquivo f opcoes_upload]
                      in case upload client bucket caminho_arquivo f opcoes_upload of
                           Inl e \<Rightarrow> (Inl e, ev2)
                         | Inr response \<Rightarrow>
                             (let ev3 = ev2 @
                                    [Log DEBUG (''Chamada de upload concluida. Status da resposta: ''
                                       @ (case response of Some c \<Rightarrow> c | None \<Rightarrow> ''N/A'')),
                                     Log INFO (''Arquivo enviado com sucesso para '' @ caminho_bucket),
                                     Log DEBUG (''Tentando obter URL publica para '' @ caminho_bucket
                                       @ ''...''),
                                     Get_public_url bucket caminho_arquivo]
                              in case get_public_url client bucket caminho_arquivo of
                                   Inr url \<Rightarrow>
                                     (Inr (Some url),
                                      ev3 @ [Log DEBUG (''URL publica obtida: '' @ url)])
                                 | Inl url_error \<Rightarrow>
                                     (Inr None,
                                      ev3 @ [Log WARNING (''Nao foi possivel obter URL publica para ''
                                               @ caminho_bucket @ '': '' @ texto url_error)])))))"

definition excluir_arquivo :: "cliente \<Rightarrow> string \<Rightarrow> (exn + bool) \<times> evento list" where
  "excluir_arquivo client caminho_bucket =
     registrar_e_relancar
       (\<lambda>e. ''Erro ao excluir arquivo '' @ caminho_bucket @ '': '' @ texto e)
       (let bucket = bucket_de caminho_bucket;
            caminho_arquivo = caminho_arquivo_de caminho_bucket;
            ev0 = [Log INFO (''Excluindo arquivo '' @ caminho_arquivo @ '' do bucket '' @ bucket),
                   Remove bucket [caminho_arquivo]]
        in case remove client bucket [caminho_arquivo] of
             Inl e \<Rightarrow> (Inl e, ev0)
           | Inr _ \<Rightarrow>
               (Inr True,
                ev0 @ [Log INFO (''Arquivo '' @ caminho_bucket @ '' excluido com sucesso'')]))"

section \<open>Webhook notifier and task orchestrator (\<^verbatim>\<open>api.py\<close>)\<close>

text \<open>
  The answer of \<^verbatim>\<open>requests.post\<close>: a response with its status code and body text, or a
  raised exception. The environment (\<^verbatim>\<open>os.getenv\<close>) is a partial map, read-only during
  a run.
\<close>

record resposta =
  status_code :: int
  resp_text :: string

type_synonym ambiente = "string \<rightharpoonup> string"

type_synonym requisicao_post = "string \<Rightarrow> payload \<Rightarrow> (string \<times> string) list \<Rightarrow> exn + resposta"

type_synonym notificador =
  "string \<Rightarrow> string \<Rightarrow> string \<Rightarrow> string option \<Rightarrow> (exn + unit) \<times> evento list"

definition enviar_webhook :: "ambiente \<Rightarrow> requisicao_post \<Rightarrow> notificador" where
  "enviar_webhook getenv requests_post id_projeto id_talhao status mensagem =
     (let webhook_url = getenv ''WEBHOOK_URL''
      in if \<not> truthy webhook_url
         then (Inr (), [Log WARNING ''URL de webhook nao configurada. Notificacao nao enviada.''])
         else
           (let payload = [(''id_projeto'', id_projeto),
                           (''id_talhao'', id_talhao),
                           (''status'', status)]
                          @ (if truthy mensagem then [(''mensagem'', the mensagem)] else []);
                headers = [(''Content-Type'', ''application/json'')]
            in (Inr (),
                Post (the webhook_url) payload headers #
                (case requests_post (the webhook_url) payload headers of
                   Inr response \<Rightarrow>
                     (if status_code response \<ge> 200 \<and> status_code response < 300
                      then [Log INFO (''Webhook enviado com sucesso: '' @ status)]
                      else [Log ERROR (''Falha ao enviar webhook: ''
                                       @ str_int (status_code response) @ '' - ''
                                       @ resp_text response)])
                 | Inl e \<Rightarrow> [Log ERROR (''Erro ao enviar webhook: '' @ texto e)]))))"

text \<open>
  Sequencing of two steps that may raise: the second runs only when the first returned,
  and the effects are those of both in order.
\<close>

definition seguir ::
  "(exn + 'a) \<times> evento list \<Rightarrow> ('a \<Rightarrow> (exn + 'b) \<times> evento list) \<Rightarrow> (exn + 'b) \<times> evento list" where
  "seguir m f =
     (case fst m of
        Inl e \<Rightarrow> (Inl e, snd m)
      | Inr v \<Rightarrow> (fst (f v), snd m @ snd (f v)))"

definition registrar :: "nivel \<Rightarrow> string \<Rightarrow> (exn + unit) \<times> evento list" where
  "registrar n msg = (Inr (), [Log n msg])"

text \<open>
  The call statement \<^verbatim>\<open>enviar_webhook(a, b, c, mensagem=d)\<close> of the orchestrator. The
  callee is the module-level name, looked up when the call is made; it is a parameter
  here, and \<open>enviar_webhook getenv requests_post\<close> is the one the module defines. The
  call itself is recorded, followed by whatever the callee does.
\<close>

definition chamar_webhook ::
  "notificador \<Rightarrow> string \<Rightarrow> string \<Rightarrow> string \<Rightarrow> string option \<Rightarrow> (exn + unit) \<times> evento list" where
  "chamar_webhook enviar_webhook_fn id_projeto id_talhao status mensagem =
     (fst (enviar_webhook_fn id_projeto id_talhao status mensagem),
      Chamada_webhook id_projeto id_talhao status mensagem
        # snd (enviar_webhook_fn id_projeto id_talhao status mensagem))"

definition configurado :: "string option \<Rightarrow> string" where
  "configurado v = (if truthy v then ''configurado'' else ''nao configurado'')"

text \<open>
  \<^verbatim>\<open>processar_ortomosaico\<close> is imported from a module outside these sources; it is a
  parameter that returns the success flag or raises.
\<close>

definition executar_processamento_background ::
  "notificador \<Rightarrow> (string \<Rightarrow> string \<Rightarrow> exn + bool) \<Rightarrow> ambiente \<Rightarrow> string \<Rightarrow> string
     \<Rightarrow> (exn + unit) \<times> evento list" where
  "executar_processamento_background enviar_webhook_fn processar_ortomosaico getenv
       id_projeto id_talhao =
     (let inicio = [Log INFO (''Iniciando processamento em background para projeto ''
                              @ id_projeto @ '', talhao '' @ id_talhao)];
          tentativa =
            (let supabase_url = getenv ''SUPABASE_URL'';
                 supabase_key = getenv ''SUPABASE_KEY'';
                 webhook_url = getenv ''WEBHOOK_URL''
             in seguir (registrar INFO
                          (''Configuracoes: SUPABASE_URL='' @ configurado supabase_url
                           @ '', SUPABASE_KEY='' @ configurado supabase_key
                           @ '', WEBHOOK_URL='' @ configurado webhook_url)) (\<lambda>_.
                seguir (if \<not> (truthy supabase_url \<and> truthy supabase_key)
                        then (Inl (Exn ValueError ''Credenciais do Supabase nao configuradas''), [])
                        else (Inr (), [])) (\<lambda>_.
                seguir (registrar INFO ''Enviando webhook de inicio'') (\<lambda>_.
                seguir (chamar_webhook enviar_webhook_fn id_projeto id_talhao ''iniciado'' None) (\<lambda>_.
                seguir (registrar INFO ''Iniciando funcao de processamento'') (\<lambda>_.
                seguir (processar_ortomosaico id_projeto id_talhao,
                        [Chamada_processar id_projeto id_talhao]) (\<lambda>sucesso.
                registrar INFO (''Processamento concluido com sucesso: '' @ str_bool sucesso))))))))
      in case fst tentativa of
           Inr _ \<Rightarrow> (Inr (), inicio @ snd tentativa)
         | Inl e \<Rightarrow>
             (let registro = [Log ERROR (''Erro no processamento background: '' @ texto e)];
                  aviso = chamar_webhook enviar_webhook_fn id_projeto id_talhao ''erro''
                            (Some (texto e));
                  falha_aviso =
                    (case fst aviso of
                       Inl webhook_error \<Rightarrow>
                         [Log ERROR (''Erro ao enviar webhook de erro: '' @ texto webhook_error)]
                     | Inr _ \<Rightarrow> [])
              in (Inl e, inicio @ snd tentativa @ registro @ snd aviso @ falha_aviso)))"

section \<open>Request gateway (\<^verbatim>\<open>api.py\<close>)\<close>

text \<open>
  The request and response models. \<^verbatim>\<open>HTTPException(status_code=c, detail=d)\<close> is an
  exception whose \<^verbatim>\<open>str\<close> is fixed by the web framework, not by these sources: that
  function is the parameter \<open>str_http\<close>. The task queue's \<^verbatim>\<open>add_task\<close> is a parameter too:
  it returns the queue with the task added, or raises.
\<close>

record processamento_request =
  id_projeto :: string
  id_talhao :: string

record processamento_response = processamento_request +
  status :: string
  mensagem :: "string option"

type_synonym tarefa = "string \<times> string"

definition http_exception :: "(int \<Rightarrow> string \<Rightarrow> string) \<Rightarrow> int \<Rightarrow> string \<Rightarrow> exn" where
  "http_exception str_http code detail = Exn (HTTPException code detail) (str_http code detail)"

definition iniciar_processamento ::
  "(int \<Rightarrow> string \<Rightarrow> string) \<Rightarrow> (tarefa list \<Rightarrow> tarefa \<Rightarrow> exn + tarefa list)
     \<Rightarrow> processamento_request \<Rightarrow> tarefa list
     \<Rightarrow> (exn + processamento_response) \<times> tarefa list \<times> evento list" where
  "iniciar_processamento str_http add_task request background_tasks =
     (let tentativa =
            (if id_projeto request = [] \<or> id_talhao request = []
             then (Inl (http_exception str_http 400 ''ID de projeto e talhao sao obrigatorios''),
                   background_tasks)
             else
               (case add_task background_tasks (id_projeto request, id_talhao request) of
                  Inl e \<Rightarrow> (Inl e, background_tasks)
                | Inr tarefas \<Rightarrow>
                    (Inr \<lparr>id_projeto = id_projeto request,
                          id_talhao = id_talhao request,
                          status = ''iniciado'',
                          mensagem = Some ''Processamento iniciado com sucesso''\<rparr>,
                     tarefas)))
      in case fst tentativa of
           Inr resposta \<Rightarrow> (Inr resposta, snd tentativa, [])
         | Inl e \<Rightarrow>
             (Inl (http_exception str_http 500 (texto e)),
              snd tentativa,
              [Log ERROR (''Erro ao iniciar processamento: '' @ texto e)]))"

section \<open>Observations on the effects of a run\<close>

text \<open>
  The notifications a run issues are its calls of the notifier, in order, each with its
  status; the webhooks that reach the network are the posted payloads. The terminal
  notifications are those with status \<^verbatim>\<open>concluido\<close> or \<^verbatim>\<open>erro\<close>.
\<close>

fun notificacao :: "evento \<Rightarrow> (string \<times> string option) list" where
  "notificacao (Chamada_webhook _ _ st msg) = [(st, msg)]"
| "notificacao _ = []"

definition notificacoes :: "evento list \<Rightarrow> (string \<times> string option) list" where
  "notificacoes evs = concat (map notificacao evs)"

definition terminal :: "string \<Rightarrow> bool" where
  "terminal st = (st = ''concluido'' \<or> st = ''erro'')"

definition terminais :: "evento list \<Rightarrow> string list" where
  "terminais evs = filter terminal (map fst (notificacoes evs))"

fun postado :: "evento \<Rightarrow> payload list" where
  "postado (Post _ p _) = [p]"
| "postado _ = []"

definition payloads :: "evento list \<Rightarrow> payload list" where
  "payloads evs = concat (map postado evs)"

text \<open>
  Observations on a list of effects: the calls that go to the storage backend, and the
  bucket and key each of them addresses.
\<close>

fun endereco :: "evento \<Rightarrow> (string \<times> string) list" where
  "endereco (Download b k) = [(b, k)]"
| "endereco (Upload b k _ _) = [(b, k)]"
| "endereco (Get_public_url b k) = [(b, k)]"
| "endereco (Remove b ks) = map (Pair b) ks"
| "endereco _ = []"

definition enderecos :: "evento list \<Rightarrow> (string \<times> string) list" where
  "enderecos evs = concat (map endereco evs)"

fun de_rede :: "evento \<Rightarrow> bool" where
  "de_rede (Post _ _ _) = True"
| "de_rede (Download _ _) = True"
| "de_rede (Upload _ _ _ _) = True"
| "de_rede (Get_public_url _ _) = True"
| "de_rede (Remove _ _) = True"
| "de_rede _ = False"

definition chamadas_de_rede :: "evento list \<Rightarrow> evento list" where
  "chamadas_de_rede evs = filter de_rede evs"

section \<open>Names used in the statements\<close>

text \<open>
  The orchestrator wired as the module wires it: its notifier is the module's own
  \<^verbatim>\<open>enviar_webhook\<close>, reading the same environment.
\<close>

definition execucao ::
  "ambiente \<Rightarrow> requisicao_post \<Rightarrow> (string \<Rightarrow> string \<Rightarrow> exn + bool) \<Rightarrow> string \<Rightarrow> string
     \<Rightarrow> (exn + unit) \<times> evento list" where
  "execucao getenv post proc idp idt =
     executar_processamento_background (enviar_webhook getenv post) proc getenv idp idt"

text \<open>
  The orchestrator's test \<^verbatim>\<open>all([supabase_url, supabase_key])\<close>: both credentials are set
  and not empty.
\<close>

definition credenciais_ok :: "ambiente \<Rightarrow> bool" where
  "credenciais_ok getenv = (truthy (getenv ''SUPABASE_URL'') \<and> truthy (getenv ''SUPABASE_KEY''))"

text \<open>The two log lines that open a run, and the effects of the \<^verbatim>\<open>except\<close> block.\<close>

definition linha_inicio :: "string \<Rightarrow> string \<Rightarrow> string" where
  "linha_inicio idp idt =
     ''Iniciando processamento em background para projeto '' @ idp @ '', talhao '' @ idt"

definition linha_configuracoes :: "ambiente \<Rightarrow> string" where
  "linha_configuracoes getenv =
     ''Configuracoes: SUPABASE_URL='' @ configurado (getenv ''SUPABASE_URL'')
     @ '', SUPABASE_KEY='' @ configurado (getenv ''SUPABASE_KEY'')
     @ '', WEBHOOK_URL='' @ configurado (getenv ''WEBHOOK_URL'')"

definition aviso_de_erro :: "notificador \<Rightarrow> string \<Rightarrow> string \<Rightarrow> exn \<Rightarrow> evento list" where
  "aviso_de_erro n idp idt e =
     Log ERROR (''Erro no processamento background: '' @ texto e)
     # Chamada_webhook idp idt ''erro'' (Some (texto e))
     # snd (n idp idt ''erro'' (Some (texto e)))
     @ (case fst (n idp idt ''erro'' (Some (texto e))) of
          Inl webhook_error \<Rightarrow>
            [Log ERROR (''Erro ao enviar webhook de erro: '' @ texto webhook_error)]
        | Inr _ \<Rightarrow> [])"

text \<open>
  The JSON body of a webhook as a function of the notifier's arguments: the three fixed
  keys, and \<^verbatim>\<open>mensagem\<close> only for a message that is neither \<^verbatim>\<open>None\<close> nor empty.
\<close>

definition payload_de :: "string \<Rightarrow> string \<Rightarrow> string \<Rightarrow> string option \<Rightarrow> payload" where
  "payload_de idp idt st msg =
     [(''id_projeto'', idp), (''id_talhao'', idt), (''status'', st)]
     @ (case msg of None \<Rightarrow> [] | Some m \<Rightarrow> if m = [] then [] else [(''mensagem'', m)])"

section \<open>Concrete collaborators for the examples\<close>

definition amb_completo :: ambiente where
  "amb_completo = map_of [(''SUPABASE_URL'', ''https://projeto.supabase.co''),
                          (''SUPABASE_KEY'', ''chave''),
                          (''WEBHOOK_URL'', ''https://exemplo.com/webhook'')]"

definition amb_sem_credenciais :: ambiente where
  "amb_sem_credenciais = map_of [(''WEBHOOK_URL'', ''https://exemplo.com/webhook'')]"

definition post_200 :: requisicao_post where
  "post_200 = (\<lambda>_ _ _. Inr \<lparr>status_code = 200, resp_text = ''ok''\<rparr>)"

definition post_500 :: requisicao_post where
  "post_500 = (\<lambda>_ _ _. Inr \<lparr>status_code = 500, resp_text = ''falhou''\<rparr>)"

definition processar_ok :: "string \<Rightarrow> string \<Rightarrow> exn + bool" where
  "processar_ok = (\<lambda>_ _. Inr True)"

definition processar_sem_sucesso :: "string \<Rightarrow> string \<Rightarrow> exn + bool" where
  "processar_sem_sucesso = (\<lambda>_ _. Inr False)"

definition processar_falha :: "string \<Rightarrow> string \<Rightarrow> exn + bool" where
  "processar_falha = (\<lambda>_ _. Inl (Exn (OutraExcecao ''RuntimeError'') ''ortomosaico corrompido''))"

definition processar_falha_muda :: "string \<Rightarrow> string \<Rightarrow> exn + bool" where
  "processar_falha_muda = (\<lambda>_ _. Inl (Exn (OutraExcecao ''RuntimeError'') []))"

definition notificador_falho :: notificador where
  "notificador_falho = (\<lambda>_ _ st _.
     if st = ''erro'' then (Inl (Exn (OutraExcecao ''ConnectionError'') ''sem rede''), [])
     else (Inr (), []))"

definition cliente_sem_url :: cliente where
  "cliente_sem_url =
     \<lparr>download = (\<lambda>_ _. Inr ''dados''),
      upload = (\<lambda>_ _ _ _. Inr (Some ''200'')),
      get_public_url = (\<lambda>_ _. Inl (Exn (OutraExcecao ''StorageException'') ''indisponivel'')),
      remove = (\<lambda>_ _. Inr ())\<rparr>"

definition fs_exemplo :: sistema_arquivos where
  "fs_exemplo =
     \<lparr>existe = (\<lambda>p. p = ''/tmp/orto.tif''),
      abrir_leitura = (\<lambda>p. if p = ''/tmp/orto.tif'' then Inr ''dados''
                            else Inl (Exn FileNotFoundError p)),
      mkdir_pai = (\<lambda>_. Inr ()),
      abrir_escrita = (\<lambda>_. Inr ()),
      escrever = (\<lambda>_ _. Inr ())\<rparr>"

section \<open>Facts about the locator split\<close>

lemma split_1_com: "sep \<notin> set b \<Longrightarrow> split_1 sep (b @ sep # k) = [b, k]"
proof -
  assume h: "sep \<notin> set b"
  then have nb: "\<And>x. x \<in> set b \<Longrightarrow> x \<noteq> sep" by auto
  have t: "takeWhile (\<lambda>c. c \<noteq> sep) (b @ sep # k) = b"
    using nb by (simp add: takeWhile_tail)
  have d: "dropWhile (\<lambda>c. c \<noteq> sep) (b @ sep # k) = sep # k"
    using nb by simp
  show ?thesis by (simp add: split_1_def t d)
qed

lemma split_1_sem: "sep \<notin> set s \<Longrightarrow> split_1 sep s = [s]"
  by (simp add: split_1_def)

lemma bucket_de_com: "CHR ''/'' \<notin> set b \<Longrightarrow> bucket_de (b @ CHR ''/'' # k) = b"
  by (simp add: bucket_de_def split_1_com)

lemma caminho_arquivo_de_com:
  "CHR ''/'' \<notin> set b \<Longrightarrow> caminho_arquivo_de (b @ CHR ''/'' # k) = k"
  by (simp add: caminho_arquivo_de_def split_1_com)

lemma bucket_de_sem: "CHR ''/'' \<notin> set s \<Longrightarrow> bucket_de s = s"
  by (simp add: bucket_de_def split_1_sem)

lemma caminho_arquivo_de_sem: "CHR ''/'' \<notin> set s \<Longrightarrow> caminho_arquivo_de s = ''''"
  by (simp add: caminho_arquivo_de_def split_1_sem)

text \<open>Every string has one of the two shapes: a bucket alone, or a bucket, a slash and a key.\<close>

lemma localizador_formas:
  "\<exists>b k. CHR ''/'' \<notin> set b \<and> (s = b @ CHR ''/'' # k \<or> (s = b \<and> k = ''''))"
proof (cases "CHR ''/'' \<in> set s")
  case False
  then show ?thesis by blast
next
  case True
  let ?b = "takeWhile (\<lambda>c. c \<noteq> CHR ''/'') s"
  let ?d = "dropWhile (\<lambda>c. c \<noteq> CHR ''/'') s"
  have nb: "CHR ''/'' \<notin> set ?b"
    by (auto dest: set_takeWhileD)
  have "?d \<noteq> []"
    using True by simp
  moreover have "hd ?d = CHR ''/''"
    using True hd_dropWhile [of "\<lambda>c. c \<noteq> CHR ''/''" s] by simp
  ultimately have d: "?d = CHR ''/'' # tl ?d"
    by (cases ?d) simp_all
  have "s = ?b @ ?d" by simp
  with d have "s = ?b @ CHR ''/'' # tl ?d" by simp
  with nb show ?thesis by blast
qed

section \<open>Facts about the storage gateway\<close>

lemma enderecos_baixar:
  "set (enderecos (snd (baixar_arquivo client fs s dest)))
     \<subseteq> {(bucket_de s, caminho_arquivo_de s)}"
  by (auto simp: baixar_arquivo_def registrar_e_relancar_def enderecos_def Let_def
           split: sum.splits)

lemma enderecos_baixar_ok:
  "mkdir_pai fs dest = Inr u \<Longrightarrow>
   enderecos (snd (baixar_arquivo client fs s dest)) = [(bucket_de s, caminho_arquivo_de s)]"
  by (auto simp: baixar_arquivo_def registrar_e_relancar_def enderecos_def Let_def
           split: sum.splits)

lemma enderecos_enviar:
  "set (enderecos (snd (enviar_arquivo client fs loc s)))
     \<subseteq> {(bucket_de s, caminho_arquivo_de s)}"
  by (auto simp: enviar_arquivo_def registrar_e_relancar_def enderecos_def Let_def
           split: sum.splits)

lemma enderecos_enviar_ok:
  "existe fs loc \<Longrightarrow> abrir_leitura fs loc = Inr f \<Longrightarrow>
   enderecos (snd (enviar_arquivo client fs loc s)) \<noteq> []"
  by (auto simp: enviar_arquivo_def registrar_e_relancar_def enderecos_def Let_def
           split: sum.splits)

lemma enderecos_excluir:
  "enderecos (snd (excluir_arquivo client s)) = [(bucket_de s, caminho_arquivo_de s)]"
  by (auto simp: excluir_arquivo_def registrar_e_relancar_def enderecos_def Let_def
           split: sum.splits)

lemma enviar_arquivo_url_falha:
  "existe fs caminho_local \<Longrightarrow> abrir_leitura fs caminho_local = Inr f \<Longrightarrow>
   upload client (bucket_de caminho_bucket) (caminho_arquivo_de caminho_bucket) f opcoes_upload
     = Inr resp \<Longrightarrow>
   get_public_url client (bucket_de caminho_bucket) (caminho_arquivo_de caminho_bucket)
     = Inl url_error \<Longrightarrow>
   fst (enviar_arquivo client fs caminho_local caminho_bucket) = Inr None \<and>
   chamadas_de_rede (snd (enviar_arquivo client fs caminho_local caminho_bucket)) =
     [Upload (bucket_de caminho_bucket) (caminho_arquivo_de caminho_bucket) f opcoes_upload,
      Get_public_url (bucket_de caminho_bucket) (caminho_arquivo_de caminho_bucket)] \<and>
   last (snd (enviar_arquivo client fs caminho_local caminho_bucket)) =
     Log WARNING (''Nao foi possivel obter URL publica para '' @ caminho_bucket @ '': ''
                  @ texto url_error)"
  by (simp add: enviar_arquivo_def registrar_e_relancar_def chamadas_de_rede_def Let_def)

lemma enviar_arquivo_levanta:
  "fst (enviar_arquivo client fs caminho_local caminho_bucket) = Inl e \<Longrightarrow>
   (\<forall>b k. Get_public_url b k \<notin> set (snd (enviar_arquivo client fs caminho_local caminho_bucket)))
   \<and> (\<not> existe fs caminho_local
      \<or> abrir_leitura fs caminho_local = Inl e
      \<or> (\<exists>f. abrir_leitura fs caminho_local = Inr f
            \<and> upload client (bucket_de caminho_bucket) (caminho_arquivo_de caminho_bucket)
                 f opcoes_upload = Inl e))"
  by (auto simp: enviar_arquivo_def registrar_e_relancar_def Let_def
           split: sum.splits if_splits)

section \<open>Facts about the notifier\<close>

lemma enviar_webhook_retorna: "fst (enviar_webhook getenv post idp idt st msg) = Inr ()"
  by (simp add: enviar_webhook_def Let_def)

lemma enviar_webhook_sem_url:
  "\<not> truthy (getenv ''WEBHOOK_URL'') \<Longrightarrow>
   snd (enviar_webhook getenv post idp idt st msg) =
     [Log WARNING ''URL de webhook nao configurada. Notificacao nao enviada.'']"
  by (simp add: enviar_webhook_def Let_def)

lemma enviar_webhook_com_url:
  "getenv ''WEBHOOK_URL'' = Some url \<Longrightarrow> url \<noteq> [] \<Longrightarrow>
   \<exists>l m. snd (enviar_webhook getenv post idp idt st msg) =
     [Post url (payload_de idp idt st msg) [(''Content-Type'', ''application/json'')], Log l m]
     \<and> (l = INFO \<or> l = ERROR)
     \<and> (l = INFO \<longleftrightarrow>
          (\<exists>r. post url (payload_de idp idt st msg) [(''Content-Type'', ''application/json'')]
                   = Inr r
               \<and> 200 \<le> status_code r \<and> status_code r < 300))"
  by (cases msg) (auto simp: enviar_webhook_def Let_def payload_de_def split: sum.splits)

lemma notificacoes_Nil [simp]: "notificacoes [] = []"
  by (simp add: notificacoes_def)

lemma notificacoes_Cons [simp]: "notificacoes (x # xs) = notificacao x @ notificacoes xs"
  by (simp add: notificacoes_def)

lemma notificacoes_append [simp]: "notificacoes (xs @ ys) = notificacoes xs @ notificacoes ys"
  by (simp add: notificacoes_def)

lemma payloads_Nil [simp]: "payloads [] = []"
  by (simp add: payloads_def)

lemma payloads_Cons [simp]: "payloads (x # xs) = postado x @ payloads xs"
  by (simp add: payloads_def)

lemma payloads_append [simp]: "payloads (xs @ ys) = payloads xs @ payloads ys"
  by (simp add: payloads_def)

lemma notificacoes_enviar_webhook [simp]:
  "notificacoes (snd (enviar_webhook getenv post idp idt st msg)) = []"
  by (auto simp: enviar_webhook_def Let_def split: sum.splits)

lemma payloads_enviar_webhook:
  "payloads (snd (enviar_webhook getenv post idp idt st msg)) =
     (if truthy (getenv ''WEBHOOK_URL'') then [payload_de idp idt st msg] else [])"
  by (cases msg) (auto simp: enviar_webhook_def Let_def payload_de_def split: sum.splits)

lemma status_payload_de [simp]: "map_of (payload_de idp idt st msg) ''status'' = Some st"
  by (simp add: payload_de_def)

section \<open>The four paths of the orchestrator\<close>

lemmas exec_defs = executar_processamento_background_def seguir_def registrar_def
  chamar_webhook_def Let_def credenciais_ok_def linha_configuracoes_def linha_inicio_def
  aviso_de_erro_def

lemma exec_sem_credenciais:
  "\<not> credenciais_ok getenv \<Longrightarrow>
   executar_processamento_background n proc getenv idp idt =
     (Inl (Exn ValueError ''Credenciais do Supabase nao configuradas''),
      [Log INFO (linha_inicio idp idt), Log INFO (linha_configuracoes getenv)]
      @ aviso_de_erro n idp idt (Exn ValueError ''Credenciais do Supabase nao configuradas''))"
  by (auto simp: exec_defs)

lemma exec_iniciado_falha:
  "credenciais_ok getenv \<Longrightarrow> fst (n idp idt ''iniciado'' None) = Inl e \<Longrightarrow>
   executar_processamento_background n proc getenv idp idt =
     (Inl e,
      [Log INFO (linha_inicio idp idt), Log INFO (linha_configuracoes getenv),
       Log INFO ''Enviando webhook de inicio'', Chamada_webhook idp idt ''iniciado'' None]
      @ snd (n idp idt ''iniciado'' None)
      @ aviso_de_erro n idp idt e)"
  by (simp add: exec_defs)

lemma exec_processar_falha:
  "credenciais_ok getenv \<Longrightarrow> fst (n idp idt ''iniciado'' None) = Inr u \<Longrightarrow>
   proc idp idt = Inl e \<Longrightarrow>
   executar_processamento_background n proc getenv idp idt =
     (Inl e,
      [Log INFO (linha_inicio idp idt), Log INFO (linha_configuracoes getenv),
       Log INFO ''Enviando webhook de inicio'', Chamada_webhook idp idt ''iniciado'' None]
      @ snd (n idp idt ''iniciado'' None)
      @ [Log INFO ''Iniciando funcao de processamento'', Chamada_processar idp idt]
      @ aviso_de_erro n idp idt e)"
  by (simp add: exec_defs)

lemma exec_retorno_normal:
  "credenciais_ok getenv \<Longrightarrow> fst (n idp idt ''iniciado'' None) = Inr u \<Longrightarrow>
   proc idp idt = Inr sucesso \<Longrightarrow>
   executar_processamento_background n proc getenv idp idt =
     (Inr (),
      [Log INFO (linha_inicio idp idt), Log INFO (linha_configuracoes getenv),
       Log INFO ''Enviando webhook de inicio'', Chamada_webhook idp idt ''iniciado'' None]
      @ snd (n idp idt ''iniciado'' None)
      @ [Log INFO ''Iniciando funcao de processamento'', Chamada_processar idp idt,
         Log INFO (''Processamento concluido com sucesso: '' @ str_bool sucesso)])"
  by (simp add: exec_defs)

lemma resultado_execucao:
  "fst (execucao getenv post proc idp idt) =
     (if \<not> credenciais_ok getenv
      then Inl (Exn ValueError ''Credenciais do Supabase nao configuradas'')
      else case proc idp idt of Inl e \<Rightarrow> Inl e | Inr _ \<Rightarrow> Inr ())"
  by (auto simp: execucao_def exec_sem_credenciais exec_processar_falha exec_retorno_normal
        enviar_webhook_retorna split: sum.splits)

lemma notificacoes_execucao:
  "notificacoes (snd (execucao getenv post proc idp idt)) =
     (if \<not> credenciais_ok getenv
      then [(''erro'', Some ''Credenciais do Supabase nao configuradas'')]
      else case proc idp idt of
             Inl e \<Rightarrow> [(''iniciado'', None), (''erro'', Some (texto e))]
           | Inr _ \<Rightarrow> [(''iniciado'', None)])"
  by (auto simp: execucao_def exec_sem_credenciais exec_processar_falha exec_retorno_normal
        enviar_webhook_retorna aviso_de_erro_def split: sum.splits)

lemma payloads_execucao:
  "payloads (snd (execucao getenv post proc idp idt)) =
     (if \<not> truthy (getenv ''WEBHOOK_URL'') then []
      else if \<not> credenciais_ok getenv
        then [payload_de idp idt ''erro'' (Some ''Credenciais do Supabase nao configuradas'')]
      else case proc idp idt of
             Inl e \<Rightarrow> [payload_de idp idt ''iniciado'' None,
                      payload_de idp idt ''erro'' (Some (texto e))]
           | Inr _ \<Rightarrow> [payload_de idp idt ''iniciado'' None])"
  by (auto simp: execucao_def exec_sem_credenciais exec_processar_falha exec_retorno_normal
        enviar_webhook_retorna aviso_de_erro_def payloads_enviar_webhook split: sum.splits)

lemma credenciais_amb_completo [simp]: "credenciais_ok amb_completo"
  by (simp add: credenciais_ok_def amb_completo_def)

lemma credenciais_amb_sem [simp]: "\<not> credenciais_ok amb_sem_credenciais"
  by (simp add: credenciais_ok_def amb_sem_credenciais_def)

lemma webhook_amb_completo [simp]:
  "amb_completo ''WEBHOOK_URL'' = Some ''https://exemplo.com/webhook''"
  by (simp add: amb_completo_def)

lemma webhook_amb_sem [simp]:
  "amb_sem_credenciais ''WEBHOOK_URL'' = Some ''https://exemplo.com/webhook''"
  by (simp add: amb_sem_credenciais_def)

section \<open>The orchestrated run\<close>

text \<open>
  Claim C1, as the specification states it: every run notifies \<^verbatim>\<open>iniciado\<close> and then exactly
  one terminal notification. Two concrete runs refute it. With credentials and webhook
  URL configured and a processing function that returns \<^verbatim>\<open>True\<close>, the only notification
  is \<^verbatim>\<open>iniciado\<close>: there is no terminal one. Without the storage credentials the only
  notification is \<^verbatim>\<open>erro\<close>: no \<^verbatim>\<open>iniciado\<close> comes first.
\<close>

theorem execucao_sem_par_iniciado_terminal:
  "map fst (notificacoes (snd (execucao amb_completo post_200 processar_ok ''p1'' ''t1'')))
     = [''iniciado'']
   \<and> terminais (snd (execucao amb_completo post_200 processar_ok ''p1'' ''t1'')) = []
   \<and> map fst (notificacoes (snd (execucao amb_sem_credenciais post_200 processar_ok ''p1'' ''t1'')))
       = [''erro'']"
  by (simp add: notificacoes_execucao terminais_def terminal_def processar_ok_def)

text \<open>
  Claim C1, amended: in every run the orchestrator issues at most one terminal
  notification, never two; the notifications are \<^verbatim>\<open>iniciado\<close> exactly when the credentials
  check passed, followed by the terminal ones; and a run that raises issues exactly one
  terminal notification, \<^verbatim>\<open>erro\<close>.
\<close>

theorem execucao_no_maximo_um_terminal:
  "length (terminais (snd (execucao getenv post proc idp idt))) \<le> 1
   \<and> map fst (notificacoes (snd (execucao getenv post proc idp idt))) =
       (if credenciais_ok getenv then [''iniciado''] else [])
       @ terminais (snd (execucao getenv post proc idp idt))
   \<and> ((\<exists>e. fst (execucao getenv post proc idp idt) = Inl e) \<longrightarrow>
        terminais (snd (execucao getenv post proc idp idt)) = [''erro''])"
  by (auto simp: notificacoes_execucao resultado_execucao terminais_def terminal_def
           split: sum.splits)

text \<open>A run whose processing function raises: \<^verbatim>\<open>iniciado\<close>, then \<^verbatim>\<open>erro\<close>.\<close>

theorem execucao_no_maximo_um_terminal_witness:
  "(\<exists>e. fst (execucao amb_completo post_200 processar_falha ''p1'' ''t1'') = Inl e)
   \<and> map fst (notificacoes (snd (execucao amb_completo post_200 processar_falha ''p1'' ''t1'')))
       = [''iniciado'', ''erro'']
   \<and> terminais (snd (execucao amb_completo post_200 processar_falha ''p1'' ''t1'')) = [''erro'']"
proof -
  have h: "\<exists>e. fst (execucao amb_completo post_200 processar_falha ''p1'' ''t1'') = Inl e"
    by (simp add: resultado_execucao processar_falha_def)
  from execucao_no_maximo_um_terminal
         [of amb_completo post_200 processar_falha "''p1''" "''t1''"] h
  show ?thesis by simp
qed

text \<open>
  Claim C3: when the processing function raises \<open>e\<close>, the run calls the notifier with
  status \<^verbatim>\<open>erro\<close> and message \<^verbatim>\<open>str(e)\<close> as the last thing it does, and raises \<open>e\<close> itself.
  This holds for any notifier, also one that raises on that call: the notifier's
  exception is logged and \<open>e\<close> is still what the run raises. With the module's own
  notifier the notifications are \<^verbatim>\<open>iniciado\<close> then \<^verbatim>\<open>erro\<close> with that message, and with a
  webhook URL configured and a message that is not empty the last posted body carries
  it under \<^verbatim>\<open>mensagem\<close>.
\<close>

theorem erro_de_processamento_notificado_e_relancado:
  assumes "credenciais_ok getenv"
    and "fst (n idp idt ''iniciado'' None) = Inr ()"
    and "proc idp idt = Inl e"
  shows "fst (executar_processamento_background n proc getenv idp idt) = Inl e
    \<and> (\<exists>antes. snd (executar_processamento_background n proc getenv idp idt) =
          antes
          @ Chamada_webhook idp idt ''erro'' (Some (texto e))
          # snd (n idp idt ''erro'' (Some (texto e)))
          @ (case fst (n idp idt ''erro'' (Some (texto e))) of
               Inl webhook_error \<Rightarrow>
                 [Log ERROR (''Erro ao enviar webhook de erro: '' @ texto webhook_error)]
             | Inr _ \<Rightarrow> [])
        \<and> Chamada_processar idp idt \<in> set antes)
    \<and> fst (execucao getenv post proc idp idt) = Inl e
    \<and> notificacoes (snd (execucao getenv post proc idp idt)) =
        [(''iniciado'', None), (''erro'', Some (texto e))]
    \<and> (truthy (getenv ''WEBHOOK_URL'') \<and> texto e \<noteq> [] \<longrightarrow>
         last (payloads (snd (execucao getenv post proc idp idt))) =
           [(''id_projeto'', idp), (''id_talhao'', idt), (''status'', ''erro''),
            (''mensagem'', texto e)])"
proof -
  let ?pre = "[Log INFO (linha_inicio idp idt), Log INFO (linha_configuracoes getenv),
       Log INFO ''Enviando webhook de inicio'', Chamada_webhook idp idt ''iniciado'' None]
      @ snd (n idp idt ''iniciado'' None)
      @ [Log INFO ''Iniciando funcao de processamento'', Chamada_processar idp idt,
         Log ERROR (''Erro no processamento background: '' @ texto e)]"
  let ?pos = "Chamada_webhook idp idt ''erro'' (Some (texto e))
          # snd (n idp idt ''erro'' (Some (texto e)))
          @ (case fst (n idp idt ''erro'' (Some (texto e))) of
               Inl webhook_error \<Rightarrow>
                 [Log ERROR (''Erro ao enviar webhook de erro: '' @ texto webhook_error)]
             | Inr _ \<Rightarrow> [])"
  have run: "executar_processamento_background n proc getenv idp idt = (Inl e, ?pre @ ?pos)"
    using assms by (simp add: exec_processar_falha [where u="()"] aviso_de_erro_def)
  have a: "fst (executar_processamento_background n proc getenv idp idt) = Inl e"
    by (simp add: run)
  have b1: "snd (executar_processamento_background n proc getenv idp idt) = ?pre @ ?pos"
    by (simp add: run)
  have b2: "Chamada_processar idp idt \<in> set ?pre"
    by simp
  have b: "\<exists>antes. snd (executar_processamento_background n proc getenv idp idt) = antes @ ?pos
             \<and> Chamada_processar idp idt \<in> set antes"
    using b1 b2 by blast
  have c: "fst (execucao getenv post proc idp idt) = Inl e"
    using assms by (simp add: resultado_execucao)
  have d: "notificacoes (snd (execucao getenv post proc idp idt)) =
        [(''iniciado'', None), (''erro'', Some (texto e))]"
    using assms by (simp add: notificacoes_execucao)
  have f: "truthy (getenv ''WEBHOOK_URL'') \<and> texto e \<noteq> [] \<longrightarrow>
         last (payloads (snd (execucao getenv post proc idp idt))) =
           [(''id_projeto'', idp), (''id_talhao'', idt), (''status'', ''erro''),
            (''mensagem'', texto e)]"
    using assms by (simp add: payloads_execucao payload_de_def)
  from a b c d f show ?thesis by (intro conjI)
qed

text \<open>
  A notifier that raises on the \<^verbatim>\<open>erro\<close> call: the run still raises the processing
  function's exception, and the notifier's failure is the last line of the log.
\<close>

theorem erro_de_processamento_notificado_e_relancado_witness:
  "fst (executar_processamento_background notificador_falho processar_falha amb_completo
          ''p1'' ''t1'')
     = Inl (Exn (OutraExcecao ''RuntimeError'') ''ortomosaico corrompido'')
   \<and> (\<exists>antes. snd (executar_processamento_background notificador_falho processar_falha
                     amb_completo ''p1'' ''t1'')
        = antes @ [Chamada_webhook ''p1'' ''t1'' ''erro'' (Some ''ortomosaico corrompido''),
                   Log ERROR ''Erro ao enviar webhook de erro: sem rede''])"
proof -
  have h1: "credenciais_ok amb_completo" by simp
  have h2: "fst (notificador_falho ''p1'' ''t1'' ''iniciado'' None) = Inr ()"
    by (simp add: notificador_falho_def)
  have h3: "processar_falha ''p1'' ''t1''
              = Inl (Exn (OutraExcecao ''RuntimeError'') ''ortomosaico corrompido'')"
    by (simp add: processar_falha_def)
  have n: "notificador_falho ''p1'' ''t1'' ''erro'' (Some ''ortomosaico corrompido'')
             = (Inl (Exn (OutraExcecao ''ConnectionError'') ''sem rede''), [])"
    by (simp add: notificador_falho_def)
  note t = erro_de_processamento_notificado_e_relancado
             [of amb_completo notificador_falho "''p1''" "''t1''" processar_falha
                 "Exn (OutraExcecao ''RuntimeError'') ''ortomosaico corrompido''" post_200,
              OF h1 h2 h3]
  from t have a: "fst (executar_processamento_background notificador_falho processar_falha
                    amb_completo ''p1'' ''t1'')
                  = Inl (Exn (OutraExcecao ''RuntimeError'') ''ortomosaico corrompido'')"
    by (rule conjunct1)
  from t obtain antes where
    "snd (executar_processamento_background notificador_falho processar_falha
            amb_completo ''p1'' ''t1'')
     = antes @ Chamada_webhook ''p1'' ''t1'' ''erro''
                 (Some (texto (Exn (OutraExcecao ''RuntimeError'') ''ortomosaico corrompido'')))
         # snd (notificador_falho ''p1'' ''t1'' ''erro''
                 (Some (texto (Exn (OutraExcecao ''RuntimeError'') ''ortomosaico corrompido''))))
         @ (case fst (notificador_falho ''p1'' ''t1'' ''erro''
                 (Some (texto (Exn (OutraExcecao ''RuntimeError'') ''ortomosaico corrompido'')))) of
              Inl webhook_error \<Rightarrow>
                [Log ERROR (''Erro ao enviar webhook de erro: '' @ texto webhook_error)]
            | Inr _ \<Rightarrow> [])"
    by blast
  then have b: "snd (executar_processamento_background notificador_falho processar_falha
                       amb_completo ''p1'' ''t1'')
     = antes @ [Chamada_webhook ''p1'' ''t1'' ''erro'' (Some ''ortomosaico corrompido''),
                Log ERROR ''Erro ao enviar webhook de erro: sem rede'']"
    by (simp add: n)
  from a b show ?thesis by blast
qed

text \<open>
  Claim C4: the credentials check comes before the \<^verbatim>\<open>iniciado\<close> notification. When
  \<^verbatim>\<open>SUPABASE_URL\<close> or \<^verbatim>\<open>SUPABASE_KEY\<close> is missing (unset, or set to the empty string) the run
  raises the \<^verbatim>\<open>ValueError\<close> of the check, never calls the notifier with \<^verbatim>\<open>iniciado\<close> and posts
  no body with that status. Whenever \<^verbatim>\<open>iniciado\<close> is notified the credentials are present,
  and the call follows the log line of the check with no notification and no post before
  it.
\<close>

theorem credenciais_antes_de_iniciado:
  "(\<not> credenciais_ok getenv \<longrightarrow>
      fst (execucao getenv post proc idp idt)
        = Inl (Exn ValueError ''Credenciais do Supabase nao configuradas'')
      \<and> ''iniciado'' \<notin> fst ` set (notificacoes (snd (execucao getenv post proc idp idt)))
      \<and> (\<forall>p \<in> set (payloads (snd (execucao getenv post proc idp idt))).
            map_of p ''status'' \<noteq> Some ''iniciado''))
   \<and> (''iniciado'' \<in> fst ` set (notificacoes (snd (execucao getenv post proc idp idt))) \<longrightarrow>
        credenciais_ok getenv
        \<and> (\<exists>antes depois.
              snd (execucao getenv post proc idp idt)
                = antes @ Chamada_webhook idp idt ''iniciado'' None # depois
              \<and> Log INFO (linha_configuracoes getenv) \<in> set antes
              \<and> notificacoes antes = [] \<and> payloads antes = []))"
proof -
  let ?antes = "[Log INFO (linha_inicio idp idt), Log INFO (linha_configuracoes getenv),
                 Log INFO ''Enviando webhook de inicio'']"
  have a: "\<not> credenciais_ok getenv \<longrightarrow>
      fst (execucao getenv post proc idp idt)
        = Inl (Exn ValueError ''Credenciais do Supabase nao configuradas'')
      \<and> ''iniciado'' \<notin> fst ` set (notificacoes (snd (execucao getenv post proc idp idt)))
      \<and> (\<forall>p \<in> set (payloads (snd (execucao getenv post proc idp idt))).
            map_of p ''status'' \<noteq> Some ''iniciado'')"
    by (simp add: resultado_execucao notificacoes_execucao payloads_execucao)
  have b: "\<exists>antes depois.
              snd (execucao getenv post proc idp idt)
                = antes @ Chamada_webhook idp idt ''iniciado'' None # depois
              \<and> Log INFO (linha_configuracoes getenv) \<in> set antes
              \<and> notificacoes antes = [] \<and> payloads antes = []"
    if ok: "credenciais_ok getenv"
  proof (cases "proc idp idt")
    case (Inl e)
    have "\<exists>depois. snd (execucao getenv post proc idp idt)
                = ?antes @ Chamada_webhook idp idt ''iniciado'' None # depois"
      using ok Inl
      by (simp add: execucao_def exec_processar_falha [where u="()"] enviar_webhook_retorna)
    moreover have "Log INFO (linha_configuracoes getenv) \<in> set ?antes"
      and "notificacoes ?antes = []" and "payloads ?antes = []"
      by simp_all
    ultimately show ?thesis by blast
  next
    case (Inr v)
    have "\<exists>depois. snd (execucao getenv post proc idp idt)
                = ?antes @ Chamada_webhook idp idt ''iniciado'' None # depois"
      using ok Inr
      by (simp add: execucao_def exec_retorno_normal [where u="()"] enviar_webhook_retorna)
    moreover have "Log INFO (linha_configuracoes getenv) \<in> set ?antes"
      and "notificacoes ?antes = []" and "payloads ?antes = []"
      by simp_all
    ultimately show ?thesis by blast
  qed
  have c: "''iniciado'' \<in> fst ` set (notificacoes (snd (execucao getenv post proc idp idt)))
            \<longrightarrow> credenciais_ok getenv"
    by (auto simp: notificacoes_execucao)
  from a b c show ?thesis by blast
qed

text \<open>Without the credentials: the \<^verbatim>\<open>ValueError\<close>, and \<^verbatim>\<open>erro\<close> as the only webhook.\<close>

theorem credenciais_antes_de_iniciado_witness:
  "fst (execucao amb_sem_credenciais post_200 processar_ok ''p1'' ''t1'')
     = Inl (Exn ValueError ''Credenciais do Supabase nao configuradas'')
   \<and> ''iniciado'' \<notin> fst ` set (notificacoes
                                 (snd (execucao amb_sem_credenciais post_200 processar_ok
                                         ''p1'' ''t1'')))
   \<and> payloads (snd (execucao amb_sem_credenciais post_200 processar_ok ''p1'' ''t1''))
       = [[(''id_projeto'', ''p1''), (''id_talhao'', ''t1''), (''status'', ''erro''),
           (''mensagem'', ''Credenciais do Supabase nao configuradas'')]]"
proof -
  have h: "\<not> credenciais_ok amb_sem_credenciais" by simp
  from credenciais_antes_de_iniciado
         [of amb_sem_credenciais post_200 processar_ok "''p1''" "''t1''"] h
  show ?thesis
    by (simp add: payloads_execucao payload_de_def)
qed

text \<open>
  Claim C5: a run whose processing function returns, whatever the flag it returns, does
  not fail: the run returns, it never notifies \<^verbatim>\<open>erro\<close> and posts no body with that
  status. A run raises exactly when an error was raised in it (the check's
  \<^verbatim>\<open>ValueError\<close>, or the processing function's exception), and \<^verbatim>\<open>erro\<close> is notified exactly
  in those runs.
\<close>

theorem retorno_normal_nao_e_falha:
  "(credenciais_ok getenv \<and> proc idp idt = Inr sucesso \<longrightarrow>
      fst (execucao getenv post proc idp idt) = Inr ()
      \<and> ''erro'' \<notin> fst ` set (notificacoes (snd (execucao getenv post proc idp idt)))
      \<and> (\<forall>p \<in> set (payloads (snd (execucao getenv post proc idp idt))).
            map_of p ''status'' \<noteq> Some ''erro''))
   \<and> ((\<exists>e. fst (execucao getenv post proc idp idt) = Inl e)
        = (\<not> credenciais_ok getenv \<or> (\<exists>e. proc idp idt = Inl e)))
   \<and> ((''erro'' \<in> fst ` set (notificacoes (snd (execucao getenv post proc idp idt))))
        = (\<exists>e. fst (execucao getenv post proc idp idt) = Inl e))"
  by (auto simp: resultado_execucao notificacoes_execucao payloads_execucao split: sum.splits)

text \<open>A processing function that returns \<^verbatim>\<open>False\<close>: the run returns, one \<^verbatim>\<open>iniciado\<close> post.\<close>

theorem retorno_normal_nao_e_falha_witness:
  "fst (execucao amb_completo post_200 processar_sem_sucesso ''p1'' ''t1'') = Inr ()
   \<and> ''erro'' \<notin> fst ` set (notificacoes
                             (snd (execucao amb_completo post_200 processar_sem_sucesso
                                     ''p1'' ''t1'')))
   \<and> payloads (snd (execucao amb_completo post_200 processar_sem_sucesso ''p1'' ''t1''))
       = [[(''id_projeto'', ''p1''), (''id_talhao'', ''t1''), (''status'', ''iniciado'')]]"
proof -
  have h: "credenciais_ok amb_completo \<and> processar_sem_sucesso ''p1'' ''t1'' = Inr False"
    by (simp add: processar_sem_sucesso_def)
  from retorno_normal_nao_e_falha
         [of amb_completo processar_sem_sucesso "''p1''" "''t1''" False post_200] h
  show ?thesis
    by (simp add: payloads_execucao payload_de_def processar_sem_sucesso_def)
qed

section \<open>The request gateway\<close>

text \<open>
  Claim C2 says that a request with an empty \<^verbatim>\<open>id_projeto\<close> or \<^verbatim>\<open>id_talhao\<close> is answered with
  status 400 and schedules nothing. Nothing is scheduled, but the status is 500: the
  \<^verbatim>\<open>HTTPException\<close> with status 400 is raised inside the \<^verbatim>\<open>try\<close> block, whose
  \<^verbatim>\<open>except Exception\<close> clause catches it and raises a new one with status 500 and the
  text of the first as its detail.
\<close>

theorem iniciar_processamento_campo_vazio_500:
  "iniciar_processamento str_http add_task \<lparr>id_projeto = '''', id_talhao = ''t1''\<rparr> tarefas
     = (Inl (Exn (HTTPException 500 (str_http 400 ''ID de projeto e talhao sao obrigatorios''))
              (str_http 500 (str_http 400 ''ID de projeto e talhao sao obrigatorios''))),
        tarefas,
        [Log ERROR (''Erro ao iniciar processamento: ''
                    @ str_http 400 ''ID de projeto e talhao sao obrigatorios'')])
   \<and> iniciar_processamento str_http add_task \<lparr>id_projeto = ''p1'', id_talhao = ''''\<rparr> tarefas
     = (Inl (Exn (HTTPException 500 (str_http 400 ''ID de projeto e talhao sao obrigatorios''))
              (str_http 500 (str_http 400 ''ID de projeto e talhao sao obrigatorios''))),
        tarefas,
        [Log ERROR (''Erro ao iniciar processamento: ''
                    @ str_http 400 ''ID de projeto e talhao sao obrigatorios'')])"
  by (simp add: iniciar_processamento_def http_exception_def)

section \<open>The storage gateway\<close>

text \<open>
  Claim C6: a locator is split at its first slash only. For a locator \<open>b/k\<close> where \<open>b\<close> has
  no slash (\<open>k\<close> may have more), the bucket is \<open>b\<close> and the key is \<open>k\<close>; for a locator \<open>b\<close>
  with no slash at all the bucket is \<open>b\<close> and the key is empty. Every string has one of
  these two shapes (\<open>localizador_formas\<close>). Download, upload and delete address every
  storage call they make to that bucket and key, and they do make the call: delete
  always, download once the destination directory is there, upload once the local file
  is open.
\<close>

theorem localizador_dividido_na_primeira_barra:
  assumes "CHR ''/'' \<notin> set b"
    and "s = b @ CHR ''/'' # k \<or> (s = b \<and> k = '''')"
  shows "bucket_de s = b \<and> caminho_arquivo_de s = k
    \<and> set (enderecos (snd (baixar_arquivo client fs s dest))) \<subseteq> {(b, k)}
    \<and> (mkdir_pai fs dest = Inr () \<longrightarrow>
          enderecos (snd (baixar_arquivo client fs s dest)) = [(b, k)])
    \<and> set (enderecos (snd (enviar_arquivo client fs loc s))) \<subseteq> {(b, k)}
    \<and> (existe fs loc \<and> (\<exists>f. abrir_leitura fs loc = Inr f) \<longrightarrow>
          enderecos (snd (enviar_arquivo client fs loc s)) \<noteq> [])
    \<and> enderecos (snd (excluir_arquivo client s)) = [(b, k)]"
proof -
  have bk: "bucket_de s = b \<and> caminho_arquivo_de s = k"
    using assms
    by (auto simp: bucket_de_com caminho_arquivo_de_com bucket_de_sem caminho_arquivo_de_sem)
  have 1: "set (enderecos (snd (baixar_arquivo client fs s dest))) \<subseteq> {(b, k)}"
    using enderecos_baixar [of client fs s dest] bk by simp
  have 2: "mkdir_pai fs dest = Inr () \<longrightarrow>
          enderecos (snd (baixar_arquivo client fs s dest)) = [(b, k)]"
    using enderecos_baixar_ok [of fs dest "()" client s] bk by simp
  have 3: "set (enderecos (snd (enviar_arquivo client fs loc s))) \<subseteq> {(b, k)}"
    using enderecos_enviar [of client fs loc s] bk by simp
  have 4: "existe fs loc \<and> (\<exists>f. abrir_leitura fs loc = Inr f) \<longrightarrow>
          enderecos (snd (enviar_arquivo client fs loc s)) \<noteq> []"
    using enderecos_enviar_ok [of fs loc _ client s] by blast
  have 5: "enderecos (snd (excluir_arquivo client s)) = [(b, k)]"
    using enderecos_excluir [of client s] bk by simp
  from bk 1 2 3 4 5 show ?thesis by (intro conjI) simp_all
qed

text \<open>The two locators of the specification: \<^verbatim>\<open>bucket/a/b.tif\<close> and \<^verbatim>\<open>bucket\<close>.\<close>

theorem localizador_dividido_na_primeira_barra_witness:
  "bucket_de ''bucket/a/b.tif'' = ''bucket'' \<and> caminho_arquivo_de ''bucket/a/b.tif'' = ''a/b.tif''
   \<and> enderecos (snd (baixar_arquivo cliente_sem_url fs_exemplo ''bucket/a/b.tif''
                       ''/tmp/saida.tif'')) = [(''bucket'', ''a/b.tif'')]
   \<and> enderecos (snd (excluir_arquivo cliente_sem_url ''bucket/a/b.tif''))
       = [(''bucket'', ''a/b.tif'')]
   \<and> bucket_de ''bucket'' = ''bucket'' \<and> caminho_arquivo_de ''bucket'' = ''''
   \<and> enderecos (snd (excluir_arquivo cliente_sem_url ''bucket'')) = [(''bucket'', '''')]"
proof -
  have h: "CHR ''/'' \<notin> set ''bucket''" by simp
  have s1: "''bucket/a/b.tif'' = ''bucket'' @ CHR ''/'' # ''a/b.tif''
              \<or> (''bucket/a/b.tif'' = ''bucket'' \<and> ''a/b.tif'' = '''')" by simp
  have s2: "''bucket'' = ''bucket'' @ CHR ''/'' # '''' \<or> (''bucket'' = ''bucket'' \<and> '''' = '''')"
    by simp
  have m: "mkdir_pai fs_exemplo ''/tmp/saida.tif'' = Inr ()"
    by (simp add: fs_exemplo_def)
  from localizador_dividido_na_primeira_barra
         [OF h s1, of cliente_sem_url fs_exemplo "''/tmp/saida.tif''" "''/tmp/orto.tif''"]
       localizador_dividido_na_primeira_barra
         [OF h s2, of cliente_sem_url fs_exemplo "''/tmp/saida.tif''" "''/tmp/orto.tif''"]
       m
  show ?thesis by simp
qed

text \<open>
  Claim C7: an upload whose local path does not exist raises \<^verbatim>\<open>FileNotFoundError\<close> and makes
  no network call, neither the upload nor the resolution of the public URL.
\<close>

theorem enviar_arquivo_inexistente:
  assumes "\<not> existe fs caminho_local"
  shows "fst (enviar_arquivo client fs caminho_local caminho_bucket)
           = Inl (Exn FileNotFoundError (''Arquivo '' @ caminho_local @ '' nao encontrado''))
    \<and> chamadas_de_rede (snd (enviar_arquivo client fs caminho_local caminho_bucket)) = []"
  using assms
  by (simp add: enviar_arquivo_def registrar_e_relancar_def chamadas_de_rede_def Let_def)

text \<open>A path that the example file system does not have.\<close>

theorem enviar_arquivo_inexistente_witness:
  "fst (enviar_arquivo cliente_sem_url fs_exemplo ''/tmp/ausente.tif'' ''bucket/a/b.tif'')
     = Inl (Exn FileNotFoundError ''Arquivo /tmp/ausente.tif nao encontrado'')
   \<and> chamadas_de_rede (snd (enviar_arquivo cliente_sem_url fs_exemplo ''/tmp/ausente.tif''
                               ''bucket/a/b.tif'')) = []"
proof -
  have h: "\<not> existe fs_exemplo ''/tmp/ausente.tif''" by (simp add: fs_exemplo_def)
  from enviar_arquivo_inexistente [OF h, of cliente_sem_url "''bucket/a/b.tif''"]
  show ?thesis by simp
qed

text \<open>
  Claim C8: when the upload succeeds and the resolution of the public URL raises, the
  call returns \<^verbatim>\<open>None\<close>; its last effect is the warning, and its network calls are the
  upload and the URL resolution only, so nothing removes the uploaded object. When the
  call raises, the URL resolution was never reached: the exception is the missing file,
  or comes from opening the file or from the upload.
\<close>

theorem enviar_arquivo_url_publica_falha:
  "(existe fs caminho_local \<and> abrir_leitura fs caminho_local = Inr f
      \<and> upload client (bucket_de caminho_bucket) (caminho_arquivo_de caminho_bucket) f opcoes_upload
          = Inr resp
      \<and> get_public_url client (bucket_de caminho_bucket) (caminho_arquivo_de caminho_bucket)
          = Inl url_error
    \<longrightarrow> fst (enviar_arquivo client fs caminho_local caminho_bucket) = Inr None
      \<and> chamadas_de_rede (snd (enviar_arquivo client fs caminho_local caminho_bucket)) =
          [Upload (bucket_de caminho_bucket) (caminho_arquivo_de caminho_bucket) f opcoes_upload,
           Get_public_url (bucket_de caminho_bucket) (caminho_arquivo_de caminho_bucket)]
      \<and> last (snd (enviar_arquivo client fs caminho_local caminho_bucket)) =
          Log WARNING (''Nao foi possivel obter URL publica para '' @ caminho_bucket @ '': ''
                       @ texto url_error))
   \<and> (fst (enviar_arquivo client fs caminho_local caminho_bucket) = Inl e \<longrightarrow>
        (\<forall>b k. Get_public_url b k
                  \<notin> set (snd (enviar_arquivo client fs caminho_local caminho_bucket)))
        \<and> (\<not> existe fs caminho_local
           \<or> abrir_leitura fs caminho_local = Inl e
           \<or> (\<exists>f. abrir_leitura fs caminho_local = Inr f
                 \<and> upload client (bucket_de caminho_bucket) (caminho_arquivo_de caminho_bucket)
                      f opcoes_upload = Inl e)))"
  using enviar_arquivo_url_falha [of fs caminho_local f client caminho_bucket resp url_error]
        enviar_arquivo_levanta [of client fs caminho_local caminho_bucket e]
  by blast

text \<open>A client whose upload succeeds and whose URL resolution raises.\<close>

theorem enviar_arquivo_url_publica_falha_witness:
  "fst (enviar_arquivo cliente_sem_url fs_exemplo ''/tmp/orto.tif'' ''bucket/a/b.tif'') = Inr None
   \<and> chamadas_de_rede (snd (enviar_arquivo cliente_sem_url fs_exemplo ''/tmp/orto.tif''
                               ''bucket/a/b.tif''))
       = [Upload ''bucket'' ''a/b.tif'' ''dados'' opcoes_upload, Get_public_url ''bucket'' ''a/b.tif'']
   \<and> last (snd (enviar_arquivo cliente_sem_url fs_exemplo ''/tmp/orto.tif'' ''bucket/a/b.tif''))
       = Log WARNING ''Nao foi possivel obter URL publica para bucket/a/b.tif: indisponivel''"
proof -
  have b: "bucket_de ''bucket/a/b.tif'' = ''bucket''"
    using bucket_de_com [of "''bucket''" "''a/b.tif''"] by simp
  have k: "caminho_arquivo_de ''bucket/a/b.tif'' = ''a/b.tif''"
    using caminho_arquivo_de_com [of "''bucket''" "''a/b.tif''"] by simp
  have h: "existe fs_exemplo ''/tmp/orto.tif''
           \<and> abrir_leitura fs_exemplo ''/tmp/orto.tif'' = Inr ''dados''
           \<and> upload cliente_sem_url (bucket_de ''bucket/a/b.tif'')
               (caminho_arquivo_de ''bucket/a/b.tif'') ''dados'' opcoes_upload = Inr (Some ''200'')
           \<and> get_public_url cliente_sem_url (bucket_de ''bucket/a/b.tif'')
               (caminho_arquivo_de ''bucket/a/b.tif'')
               = Inl (Exn (OutraExcecao ''StorageException'') ''indisponivel'')"
    by (simp add: fs_exemplo_def cliente_sem_url_def)
  from enviar_arquivo_url_publica_falha
         [of fs_exemplo "''/tmp/orto.tif''" "''dados''" cliente_sem_url "''bucket/a/b.tif''"
             "Some ''200''" "Exn (OutraExcecao ''StorageException'') ''indisponivel''"] h
  show ?thesis by (simp add: b k)
qed

section \<open>The webhook notifier\<close>

text \<open>
  Claim C9: \<^verbatim>\<open>enviar_webhook\<close> returns in every case. With no webhook URL (unset or empty)
  its only effect is the warning, and it makes no network call. With a URL its effects
  are one post followed by one log line, which is at level INFO exactly when the post
  answered with a status from 200 to 299, and at level ERROR for any other answer and for
  an exception.
\<close>

theorem enviar_webhook_nunca_levanta:
  "fst (enviar_webhook getenv post idp idt st msg) = Inr ()
   \<and> (\<not> truthy (getenv ''WEBHOOK_URL'') \<longrightarrow>
        snd (enviar_webhook getenv post idp idt st msg)
          = [Log WARNING ''URL de webhook nao configurada. Notificacao nao enviada.'']
        \<and> chamadas_de_rede (snd (enviar_webhook getenv post idp idt st msg)) = [])
   \<and> (getenv ''WEBHOOK_URL'' = Some url \<and> url \<noteq> [] \<longrightarrow>
        (\<exists>l m. snd (enviar_webhook getenv post idp idt st msg)
                  = [Post url (payload_de idp idt st msg) [(''Content-Type'', ''application/json'')],
                     Log l m]
               \<and> (l = INFO \<or> l = ERROR)
               \<and> (l = INFO \<longleftrightarrow>
                    (\<exists>r. post url (payload_de idp idt st msg)
                             [(''Content-Type'', ''application/json'')] = Inr r
                         \<and> 200 \<le> status_code r \<and> status_code r < 300))))"
proof -
  have a: "fst (enviar_webhook getenv post idp idt st msg) = Inr ()"
    by (rule enviar_webhook_retorna)
  have b: "\<not> truthy (getenv ''WEBHOOK_URL'') \<longrightarrow>
        snd (enviar_webhook getenv post idp idt st msg)
          = [Log WARNING ''URL de webhook nao configurada. Notificacao nao enviada.'']
        \<and> chamadas_de_rede (snd (enviar_webhook getenv post idp idt st msg)) = []"
    by (simp add: enviar_webhook_sem_url chamadas_de_rede_def)
  from a b enviar_webhook_com_url [of getenv url post idp idt st msg]
  show ?thesis by blast
qed

text \<open>An endpoint that answers 500: one post, one error line, and the call returns.\<close>

theorem enviar_webhook_nunca_levanta_witness:
  "fst (enviar_webhook amb_completo post_500 ''p1'' ''t1'' ''iniciado'' None) = Inr ()
   \<and> snd (enviar_webhook amb_completo post_500 ''p1'' ''t1'' ''iniciado'' None)
       = [Post ''https://exemplo.com/webhook''
            [(''id_projeto'', ''p1''), (''id_talhao'', ''t1''), (''status'', ''iniciado'')]
            [(''Content-Type'', ''application/json'')],
          Log ERROR ''Falha ao enviar webhook: 500 - falhou'']"
proof -
  have h: "amb_completo ''WEBHOOK_URL'' = Some ''https://exemplo.com/webhook''
           \<and> ''https://exemplo.com/webhook'' \<noteq> []"
    by simp
  have c: "str_int 500 = ''500''"
    by code_simp
  from enviar_webhook_nunca_levanta
         [of amb_completo post_500 "''p1''" "''t1''" "''iniciado''" None
             "''https://exemplo.com/webhook''"] h
  show ?thesis
    by (simp add: enviar_webhook_def Let_def post_500_def c)
qed

text \<open>
  Claim C10: a posted body has the key \<^verbatim>\<open>mensagem\<close> exactly when the message is truthy, and
  then with the message as its value; a message that is \<^verbatim>\<open>None\<close> or empty leaves the key
  out. With a webhook URL there is exactly one body per call. So a run that fails with
  an exception whose text is empty posts an \<^verbatim>\<open>erro\<close> body of the three fixed keys only.
\<close>

theorem mensagem_no_payload_sse_truthy:
  "(\<forall>p \<in> set (payloads (snd (enviar_webhook getenv post idp idt st msg))).
       (''mensagem'' \<in> fst ` set p) = truthy msg
       \<and> map_of p ''mensagem'' = (if truthy msg then msg else None))
   \<and> (truthy (getenv ''WEBHOOK_URL'') \<longrightarrow>
        length (payloads (snd (enviar_webhook getenv post idp idt st msg))) = 1)
   \<and> (credenciais_ok getenv \<and> truthy (getenv ''WEBHOOK_URL'')
        \<and> proc idp idt = Inl e \<and> texto e = [] \<longrightarrow>
        payloads (snd (execucao getenv post proc idp idt))
          = [[(''id_projeto'', idp), (''id_talhao'', idt), (''status'', ''iniciado'')],
             [(''id_projeto'', idp), (''id_talhao'', idt), (''status'', ''erro'')]])"
  by (cases msg) (auto simp: payloads_enviar_webhook payloads_execucao payload_de_def)

text \<open>An empty message, and a run that fails with an exception of empty text.\<close>

theorem mensagem_no_payload_sse_truthy_witness:
  "payloads (snd (enviar_webhook amb_completo post_200 ''p1'' ''t1'' ''erro'' (Some [])))
     = [[(''id_projeto'', ''p1''), (''id_talhao'', ''t1''), (''status'', ''erro'')]]
   \<and> payloads (snd (execucao amb_completo post_200 processar_falha_muda ''p1'' ''t1''))
       = [[(''id_projeto'', ''p1''), (''id_talhao'', ''t1''), (''status'', ''iniciado'')],
          [(''id_projeto'', ''p1''), (''id_talhao'', ''t1''), (''status'', ''erro'')]]"
proof -
  have h: "credenciais_ok amb_completo \<and> truthy (amb_completo ''WEBHOOK_URL'')
           \<and> processar_falha_muda ''p1'' ''t1'' = Inl (Exn (OutraExcecao ''RuntimeError'') [])
           \<and> texto (Exn (OutraExcecao ''RuntimeError'') []) = []"
    by (simp add: processar_falha_muda_def)
  from mensagem_no_payload_sse_truthy
         [of amb_completo post_200 "''p1''" "''t1''" "''erro''" "Some []"
             processar_falha_muda "Exn (OutraExcecao ''RuntimeError'') []"] h
  show ?thesis
    by (simp add: payloads_enviar_webhook payload_de_def)
qed

end
